theory Spec2Isabelle
  imports Main
begin

section \<open>Values, errors and observable events\<close>

text \<open>
  The two controllers (\<^verbatim>\<open>AuthController\<close> in \<^verbatim>\<open>debugPagemod.js\<close> and
  \<^verbatim>\<open>SecretDecryptController\<close> in \<^verbatim>\<open>secretDecryptController.js\<close>) only orchestrate
  collaborators that live in other modules (\<^verbatim>\<open>GpgAuth\<close>, \<^verbatim>\<open>Crypto\<close>, \<^verbatim>\<open>User\<close>,
  \<^verbatim>\<open>Secret\<close>, \<^verbatim>\<open>progressController\<close>, ...). A collaborator is a parameter of the model: the
  environment records what each of its calls returns. A call the source awaits returns a
  promise, which either resolves to a value (\<open>Inr\<close>) or rejects with an error (\<open>Inl\<close>);
  a synchronous call (\<^verbatim>\<open>port.emit\<close>, \<^verbatim>\<open>storeMasterPasswordTemporarily\<close>,
  \<^verbatim>\<open>settings.setDefaults\<close>, \<^verbatim>\<open>console.error\<close>) just happens; the constructor \<^verbatim>\<open>new URL\<close>
  is synchronous and throws on a string that is no URL. What a controller does is the
  list of collaborator calls it makes, in order, together with the way its own promise
  settles.

  An error is an object with a class and a message; \<^verbatim>\<open>new ServerKeyChangedError(m)\<close> and
  \<^verbatim>\<open>new KeyIsExpiredError(m)\<close> make one of their class with message \<open>m\<close>.
\<close>

datatype error_class = ServerKeyChangedError | KeyIsExpiredError | TypeError | OtherError string

record js_error =
  error_class :: error_class
  message :: string

text \<open>The argument \<^verbatim>\<open>redirect\<close> of \<^verbatim>\<open>login\<close> is an arbitrary JavaScript value.\<close>

datatype js_value =
    JUndefined
  | JNull
  | JBool bool
  | JNumber int            \<comment> \<open>only its truthiness is used: \<open>0\<close> is falsy\<close>
  | JString string
  | JStringObject string   \<comment> \<open>\<^verbatim>\<open>new String(s)\<close>: an object, \<^verbatim>\<open>instanceof String\<close>\<close>
  | JObject                \<comment> \<open>any other object\<close>

type_synonym private_key = string

record secret =
  data :: string

record resource =
  secrets :: "secret list option"   \<comment> \<open>\<open>None\<close>: the property is undefined\<close>

datatype reply_status = SUCCESS | ERROR

datatype payload =
    NoPayload
  | Message string
  | EmitableError js_error   \<comment> \<open>\<^verbatim>\<open>this.worker.port.getEmitableError(error)\<close>\<close>

datatype event =
    Emit string reply_status payload   \<comment> \<open>\<^verbatim>\<open>this.worker.port.emit(requestId, status, payload)\<close>\<close>
  | AuthEmit nat string "string list"  \<comment> \<open>\<^verbatim>\<open>Worker.get('Auth', tabId).port.emit(name, args...)\<close>\<close>
  | AuthVerify
  | ServerKeyChanged
  | IsServerKeyExpired
  | RetrieveAndStoreCsrfToken
  | GetAndDecryptPrivateKey string
  | AuthLogin private_key
  | StoreMasterPasswordTemporarily string int
  | StartCheckAuthStatusLoop
  | SettingsSync
  | SettingsSetDefaults
  | PassboltAppInit
  | FindByResourceId string
  | LegacyFindOne string               \<comment> \<open>with \<^verbatim>\<open>{ contain: { secret: 1 } }\<close>\<close>
  | PassphraseGet
  | ProgressOpen string nat string
  | ProgressUpdate nat string
  | ProgressClose
  | DecryptWithKey string private_key
  | ConsoleError js_error
  | Suspended   \<comment> \<open>no call: \<^verbatim>\<open>decrypt\<close> waits at an \<^verbatim>\<open>await\<close>, the fetch it started may go on\<close>
  | Joined      \<comment> \<open>no call: \<^verbatim>\<open>decrypt\<close> waits at \<^verbatim>\<open>await secretPromise\<close> until the fetch is over\<close>

text \<open>A run: the calls made so far, and how the promise of the async function settles.\<close>

type_synonym 'a run = "event list \<times> (js_error + 'a)"

definition done_run :: "unit run" where
  "done_run = ([], Inr ())"

text \<open>\<^verbatim>\<open>await collaborator.call(...)\<close> followed by the rest of the function body.\<close>

definition await :: "event \<Rightarrow> js_error + 'a \<Rightarrow> ('a \<Rightarrow> 'b run) \<Rightarrow> 'b run" where
  "await ev outcome rest =
     (case outcome of
        Inl error \<Rightarrow> ([ev], Inl error)
      | Inr v \<Rightarrow> (case rest v of (evs, r) \<Rightarrow> (ev # evs, r)))"

text \<open>A synchronous collaborator call followed by the rest of the body.\<close>

definition call :: "event \<Rightarrow> 'b run \<Rightarrow> 'b run" where
  "call ev rest = (case rest of (evs, r) \<Rightarrow> (ev # evs, r))"

text \<open>A synchronous method of the controller that makes the calls \<open>evs\<close>, then the rest.\<close>

definition calls :: "event list \<Rightarrow> 'b run \<Rightarrow> 'b run" where
  "calls evs rest = (case rest of (evs', r) \<Rightarrow> (evs @ evs', r))"

text \<open>\<^verbatim>\<open>await p\<close> for a promise \<open>p\<close> of this controller's own async methods.\<close>

definition await_run :: "'a run \<Rightarrow> ('a \<Rightarrow> 'b run) \<Rightarrow> 'b run" where
  "await_run p rest =
     (case p of
        (evs, Inl error) \<Rightarrow> (evs, Inl error)
      | (evs, Inr v) \<Rightarrow> (case rest v of (evs', r) \<Rightarrow> (evs @ evs', r)))"

text \<open>
  An async method called without \<^verbatim>\<open>await\<close>: its calls happen, its promise is dropped,
  so a rejection reaches nobody.
\<close>

definition not_awaited :: "'a run \<Rightarrow> unit run" where
  "not_awaited p = (fst p, Inr ())"

text \<open>\<^verbatim>\<open>try { body } catch (error) { handler }\<close>.\<close>

definition try_catch :: "'a run \<Rightarrow> (js_error \<Rightarrow> 'a run) \<Rightarrow> 'a run" where
  "try_catch body handler =
     (case body of
        (evs, Inr v) \<Rightarrow> (evs, Inr v)
      | (evs, Inl error) \<Rightarrow> (case handler error of (evs', r) \<Rightarrow> (evs @ evs', r)))"

section \<open>AuthController\<close>

record auth_env =
  tr :: "string \<Rightarrow> string"                     \<comment> \<open>the localisation function \<^verbatim>\<open>__\<close>\<close>
  request_id :: string                           \<comment> \<open>\<^verbatim>\<open>this.requestId\<close>\<close>
  is_auth_form :: bool
    \<comment> \<open>\<^verbatim>\<open>this.worker.pageMod && this.worker.pageMod.args.name === "AuthForm"\<close>\<close>
  tab_id :: nat                                  \<comment> \<open>\<^verbatim>\<open>this.worker.tab.id\<close>\<close>
  auth_verify :: "js_error + unit"
  server_key_changed :: "js_error + bool"
  is_server_key_expired :: "js_error + bool"
  retrieve_and_store_csrf_token :: "js_error + unit"
  get_and_decrypt_private_key :: "string \<Rightarrow> js_error + private_key"
  auth_login :: "private_key \<Rightarrow> js_error + unit"
  start_check_auth_status_loop :: "js_error + unit"
  settings_sync :: "js_error + unit"
  passbolt_app_init :: "js_error + unit"
  trusted_domain :: string                       \<comment> \<open>\<^verbatim>\<open>Config.read('user.settings.trustedDomain')\<close>\<close>
  url_href :: "string \<Rightarrow> js_error + string"      \<comment> \<open>\<^verbatim>\<open>new URL(s).href\<close>, a TypeError when \<open>s\<close> is no URL\<close>

definition could_not_verify :: "auth_env \<Rightarrow> js_error \<Rightarrow> js_error" where
  \<comment> \<open>\<^verbatim>\<open>error.message = `${__('Could not verify server key.')} ${error.message}`\<close>\<close>
  "could_not_verify env error =
     error\<lparr>message := tr env ''Could not verify server key.'' @ '' '' @ message error\<rparr>"

definition emit_verify_error :: "auth_env \<Rightarrow> js_error \<Rightarrow> unit run" where
  "emit_verify_error env error =
     call (Emit (request_id env) ERROR (EmitableError (could_not_verify env error))) done_run"

definition verify :: "auth_env \<Rightarrow> unit run" where
  "verify env =
     try_catch
       (await AuthVerify (auth_verify env) (\<lambda>_.
          call (Emit (request_id env) SUCCESS (Message (tr env
            ''The server key is verified. The server can use it to sign and decrypt content.'')))
            done_run))
       (\<lambda>error.
          await ServerKeyChanged (server_key_changed env) (\<lambda>changed.
            if changed then
              emit_verify_error env
                \<lparr>error_class = ServerKeyChangedError,
                 message = tr env ''The server key has changed.''\<rparr>
            else
              await IsServerKeyExpired (is_server_key_expired env) (\<lambda>expired.
                if expired then
                  emit_verify_error env
                    \<lparr>error_class = KeyIsExpiredError,
                     message = tr env ''The server key is expired.''\<rparr>
                else emit_verify_error env error)))"

definition beforeLogin :: "auth_env \<Rightarrow> event list" where
  "beforeLogin env =
     (if is_auth_form env
      then [AuthEmit (tab_id env) ''passbolt.auth.login-processing'' [tr env ''Logging in'']]
      else [])"

definition syncUserSettings :: "auth_env \<Rightarrow> unit run" where
  "syncUserSettings env =
     try_catch (await SettingsSync (settings_sync env) (\<lambda>_. done_run))
       (\<lambda>error. call SettingsSetDefaults done_run)"

text \<open>\<^verbatim>\<open>!redirect\<close>, and \<^verbatim>\<open>typeof redirect === 'string' || redirect instanceof String\<close>.\<close>

fun js_not :: "js_value \<Rightarrow> bool" where
  "js_not JUndefined = True"
| "js_not JNull = True"
| "js_not (JBool b) = (\<not> b)"
| "js_not (JNumber n) = (n = 0)"
| "js_not (JString s) = (s = [])"
| "js_not (JStringObject s) = False"
| "js_not JObject = False"

fun is_js_string :: "js_value \<Rightarrow> bool" where
  "is_js_string (JString s) = True"
| "is_js_string (JStringObject s) = True"
| "is_js_string _ = False"

fun string_value :: "js_value \<Rightarrow> string option" where
  "string_value (JString s) = Some s"
| "string_value (JStringObject s) = Some s"
| "string_value _ = None"

definition charAt :: "string \<Rightarrow> nat \<Rightarrow> string" where
  "charAt s i = (if i < length s then [s ! i] else [])"

definition login_url :: "auth_env \<Rightarrow> js_value \<Rightarrow> js_error + string" where
  \<comment> \<open>the \<^verbatim>\<open>url.href\<close> of lines 183 to 188; \<^verbatim>\<open>redirect.charAt(0)\<close> is only reached for a string\<close>
  "login_url env redirect =
     (case string_value redirect of
        None \<Rightarrow> url_href env (trusted_domain env)
      | Some s \<Rightarrow>
          if js_not redirect \<or> \<not> is_js_string redirect \<or> charAt s 0 \<noteq> ''/''
          then url_href env (trusted_domain env)
          else url_href env (trusted_domain env @ s))"

definition handleLoginSuccess :: "auth_env \<Rightarrow> js_value \<Rightarrow> unit run" where
  "handleLoginSuccess env redirect =
     await PassboltAppInit (passbolt_app_init env) (\<lambda>_.
       if is_auth_form env then
         (case login_url env redirect of
            Inl error \<Rightarrow> ([], Inl error)
          | Inr href \<Rightarrow>
              call (AuthEmit (tab_id env) ''passbolt.auth.login-success''
                      [tr env ''You are now logged in!'', href])
                done_run)
       else call (Emit (request_id env) SUCCESS NoPayload) done_run)"

definition handleLoginError :: "auth_env \<Rightarrow> js_error \<Rightarrow> unit run" where
  "handleLoginError env error =
     (if is_auth_form env
      then call (AuthEmit (tab_id env) ''passbolt.auth.login-failed'' [message error]) done_run
      else call (Emit (request_id env) ERROR (EmitableError error)) done_run)"

text \<open>
  \<^verbatim>\<open>remember\<close> is a boolean. \<^verbatim>\<open>handleLoginSuccess\<close> is an async method and line 131
  calls it without \<^verbatim>\<open>await\<close>; the other promises of the \<^verbatim>\<open>try\<close> are awaited, that of
  the start of the session-check loop (line 129) included.
\<close>

definition login :: "auth_env \<Rightarrow> string \<Rightarrow> bool \<Rightarrow> js_value \<Rightarrow> unit run" where
  "login env passphrase remember redirect =
     calls (beforeLogin env)
       (try_catch
          (await RetrieveAndStoreCsrfToken (retrieve_and_store_csrf_token env) (\<lambda>_.
           await (GetAndDecryptPrivateKey passphrase)
             (get_and_decrypt_private_key env passphrase) (\<lambda>privateKey.
           await (AuthLogin privateKey) (auth_login env privateKey) (\<lambda>_.
           (if remember then call (StoreMasterPasswordTemporarily passphrase (- 1)) else id)
           (await StartCheckAuthStatusLoop (start_check_auth_status_loop env) (\<lambda>_.
            await_run (syncUserSettings env) (\<lambda>_.
            not_awaited (handleLoginSuccess env redirect))))))))
          (handleLoginError env))"

section \<open>SecretDecryptController\<close>

record decrypt_env =
  reply_id :: string                             \<comment> \<open>\<^verbatim>\<open>this.requestId\<close>\<close>
  find_by_resource_id :: "string \<Rightarrow> js_error + secret"
  legacy_find_one :: "string \<Rightarrow> js_error + resource"
  passphrase_get :: "js_error + string"
  progress_open :: "string \<Rightarrow> nat \<Rightarrow> string \<Rightarrow> js_error + unit"
  progress_update :: "nat \<Rightarrow> string \<Rightarrow> js_error + unit"
  progress_close :: "js_error + unit"
  decrypt_private_key :: "string \<Rightarrow> js_error + private_key"
  decrypt_with_key :: "string \<Rightarrow> private_key \<Rightarrow> js_error + string"
  primary_settles :: nat
    \<comment> \<open>how many of the awaits of \<^verbatim>\<open>decrypt\<close> are over before the promise of
        \<^verbatim>\<open>Secret.findByResourceId\<close> settles\<close>

definition undefined_property :: "string \<Rightarrow> js_error" where
  \<comment> \<open>the TypeError of the engine for a property read on \<^verbatim>\<open>undefined\<close>\<close>
  "undefined_property name =
     \<lparr>error_class = TypeError,
      message = ''Cannot read property '' @ name @ '' of undefined''\<rparr>"

definition first_secret :: "resource \<Rightarrow> js_error + secret option" where
  \<comment> \<open>\<^verbatim>\<open>resource.secrets[0]\<close>: \<open>None\<close> is \<^verbatim>\<open>undefined\<close>, what reading past the end of an array gives\<close>
  "first_secret resource =
     (case secrets resource of
        None \<Rightarrow> Inl (undefined_property ''0'')
      | Some [] \<Rightarrow> Inr None
      | Some (s # ss) \<Rightarrow> Inr (Some s))"

definition getSecret :: "decrypt_env \<Rightarrow> string \<Rightarrow> (secret option) run" where
  \<comment> \<open>\<^verbatim>\<open>_getSecret\<close>\<close>
  "getSecret env resourceId =
     try_catch
       (await (FindByResourceId resourceId) (find_by_resource_id env resourceId) (\<lambda>secret.
          ([], Inr (Some secret))))
       (\<lambda>error.
          await (LegacyFindOne resourceId) (legacy_find_one env resourceId) (\<lambda>resource.
            ([], first_secret resource)))"

definition secret_data :: "secret option \<Rightarrow> js_error + string" where
  \<comment> \<open>\<^verbatim>\<open>secret.data\<close>\<close>
  "secret_data secret =
     (case secret of None \<Rightarrow> Inl (undefined_property ''data'') | Some s \<Rightarrow> Inr (data s))"

definition throwing :: "js_error + 'a \<Rightarrow> ('a \<Rightarrow> 'b run) \<Rightarrow> 'b run" where
  \<comment> \<open>an expression of the controller itself that may throw, then the rest\<close>
  "throwing outcome rest = (case outcome of Inl error \<Rightarrow> ([], Inl error) | Inr v \<Rightarrow> rest v)"

text \<open>
  \<^verbatim>\<open>decrypt\<close> starts \<^verbatim>\<open>_getSecret\<close> (line 35) and does not await it there: \<^verbatim>\<open>_getSecret\<close>
  calls \<^verbatim>\<open>Secret.findByResourceId\<close> and is suspended at its own \<^verbatim>\<open>await\<close> (line 69), and
  \<^verbatim>\<open>decrypt\<close> goes on to the prompt. Whatever \<^verbatim>\<open>_getSecret\<close> calls after that, it calls
  once the promise of the primary lookup has settled, which happens while \<^verbatim>\<open>decrypt\<close> is
  itself suspended at one of its awaits, or after \<^verbatim>\<open>decrypt\<close> has returned; at
  \<^verbatim>\<open>await secretPromise\<close> (line 47) \<^verbatim>\<open>decrypt\<close> waits until the fetch is over. So the run of
  \<^verbatim>\<open>decrypt\<close> itself records, besides its calls, where it is suspended.
\<close>

definition awaiting :: "event \<Rightarrow> js_error + 'a \<Rightarrow> ('a \<Rightarrow> 'b run) \<Rightarrow> 'b run" where
  \<comment> \<open>\<^verbatim>\<open>await collaborator.call(...)\<close> in \<^verbatim>\<open>decrypt\<close>: the call, the wait, the rest\<close>
  "awaiting ev outcome rest =
     (case outcome of
        Inl error \<Rightarrow> ([ev, Suspended], Inl error)
      | Inr v \<Rightarrow> (case rest v of (evs, r) \<Rightarrow> (ev # Suspended # evs, r)))"

definition joining :: "'a run \<Rightarrow> ('a \<Rightarrow> 'b run) \<Rightarrow> 'b run" where
  \<comment> \<open>\<^verbatim>\<open>await secretPromise\<close>: only how the promise settles is read here\<close>
  "joining promise rest =
     (case snd promise of
        Inl error \<Rightarrow> ([Joined], Inl error)
      | Inr v \<Rightarrow> (case rest v of (evs, r) \<Rightarrow> (Joined # evs, r)))"

definition decrypt_try :: "decrypt_env \<Rightarrow> (secret option) run \<Rightarrow> string \<Rightarrow> unit run" where
  \<comment> \<open>the body of the second \<^verbatim>\<open>try\<close>, lines 46 to 53\<close>
  "decrypt_try env secretPromise passphrase =
     awaiting (ProgressOpen ''Decrypting...'' 2 ''Decrypting private key'')
       (progress_open env ''Decrypting...'' 2 ''Decrypting private key'') (\<lambda>_.
     joining secretPromise (\<lambda>secret.
     awaiting (GetAndDecryptPrivateKey passphrase) (decrypt_private_key env passphrase) (\<lambda>privateKey.
     awaiting (ProgressUpdate 1 ''Decrypting secret'')
       (progress_update env 1 ''Decrypting secret'') (\<lambda>_.
     throwing (secret_data secret) (\<lambda>ciphertext.
     awaiting (DecryptWithKey ciphertext privateKey)
       (decrypt_with_key env ciphertext privateKey) (\<lambda>message.
     awaiting (ProgressUpdate 2 ''Complete'') (progress_update env 2 ''Complete'') (\<lambda>_.
     call (Emit (reply_id env) SUCCESS (Message message))
       (awaiting ProgressClose (progress_close env) (\<lambda>_. done_run)))))))))"

definition decrypt_catch :: "decrypt_env \<Rightarrow> js_error \<Rightarrow> unit run" where
  \<comment> \<open>its \<^verbatim>\<open>catch\<close>, lines 55 to 57\<close>
  "decrypt_catch env error =
     call (ConsoleError error)
       (call (Emit (reply_id env) ERROR (EmitableError error))
          (awaiting ProgressClose (progress_close env) (\<lambda>_. done_run)))"

definition decrypt_main :: "decrypt_env \<Rightarrow> (secret option) run \<Rightarrow> unit run" where
  \<comment> \<open>lines 38 to 58: what \<^verbatim>\<open>decrypt\<close> itself does once the fetch is started\<close>
  "decrypt_main env secretPromise =
     (case passphrase_get env of
        Inl error \<Rightarrow>
          call PassphraseGet
            (call Suspended
               (call (Emit (reply_id env) ERROR (EmitableError error)) done_run))
      | Inr passphrase \<Rightarrow>
          call PassphraseGet
            (call Suspended
               (try_catch (decrypt_try env secretPromise passphrase) (decrypt_catch env))))"

text \<open>
  \<open>schedule n later evs\<close>: the calls \<open>later\<close> of the suspended fetch put into the run
  \<open>evs\<close> of \<^verbatim>\<open>decrypt\<close>. They are made during the wait at which the primary lookup settles
  (\<open>n\<close> waits are over before), at \<^verbatim>\<open>await secretPromise\<close> at the latest when \<^verbatim>\<open>decrypt\<close>
  gets there, and otherwise after \<^verbatim>\<open>decrypt\<close> has returned.
\<close>

fun schedule :: "nat \<Rightarrow> event list \<Rightarrow> event list \<Rightarrow> event list" where
  "schedule n later [] = later"
| "schedule n later (Suspended # evs) =
     (case n of 0 \<Rightarrow> later @ schedule 0 [] evs | Suc m \<Rightarrow> schedule m later evs)"
| "schedule n later (Joined # evs) = later @ schedule 0 [] evs"
| "schedule n later (ev # evs) = ev # schedule n later evs"

definition decrypt :: "decrypt_env \<Rightarrow> string \<Rightarrow> unit run" where
  \<comment> \<open>all the calls that a call of \<^verbatim>\<open>decrypt\<close> causes, those of the fetch included\<close>
  "decrypt env resourceId =
     (let secretPromise = getSecret env resourceId;
          main = decrypt_main env secretPromise
      in (take 1 (fst secretPromise) @
            schedule (primary_settles env) (drop 1 (fst secretPromise)) (fst main),
          snd main))"

section \<open>Reading a run\<close>

fun is_success_reply :: "event \<Rightarrow> bool" where
  "is_success_reply (Emit rid st p) = (st = SUCCESS)"
| "is_success_reply (AuthEmit tab name args) = (name = ''passbolt.auth.login-success'')"
| "is_success_reply _ = False"

fun is_error_reply :: "event \<Rightarrow> bool" where
  "is_error_reply (Emit rid st p) = (st = ERROR)"
| "is_error_reply (AuthEmit tab name args) = (name = ''passbolt.auth.login-failed'')"
| "is_error_reply _ = False"

fun is_auth_login :: "event \<Rightarrow> bool" where
  "is_auth_login (AuthLogin k) = True"
| "is_auth_login _ = False"

fun is_progress_open :: "event \<Rightarrow> bool" where
  "is_progress_open (ProgressOpen title goals label) = True"
| "is_progress_open _ = False"

definition count_where :: "(event \<Rightarrow> bool) \<Rightarrow> event list \<Rightarrow> nat" where
  "count_where P evs = length (filter P evs)"

text \<open>
  The retained-passphrase slot of the session: \<^verbatim>\<open>storeMasterPasswordTemporarily\<close> is its
  only writer in the controller; the second component is the lifetime, \<open>- 1\<close> for
  "until logout".
\<close>

fun retained_after :: "event list \<Rightarrow> (string \<times> int) option \<Rightarrow> (string \<times> int) option" where
  "retained_after [] slot = slot"
| "retained_after (StoreMasterPasswordTemporarily p t # evs) slot = retained_after evs (Some (p, t))"
| "retained_after (ev # evs) slot = retained_after evs slot"


fun is_progress_close :: "event \<Rightarrow> bool" where
  "is_progress_close ProgressClose = True"
| "is_progress_close _ = False"

fun is_legacy_find :: "event \<Rightarrow> bool" where
  "is_legacy_find (LegacyFindOne rid) = True"
| "is_legacy_find _ = False"

fun is_primary_find :: "event \<Rightarrow> bool" where
  "is_primary_find (FindByResourceId rid) = True"
| "is_primary_find _ = False"

fun is_store_passphrase :: "event \<Rightarrow> bool" where
  "is_store_passphrase (StoreMasterPasswordTemporarily p t) = True"
| "is_store_passphrase _ = False"

text \<open>
  \<open>only_after P Q evs\<close>: no event with \<open>P\<close> occurs in \<open>evs\<close> before the first event
  with \<open>Q\<close> has occurred.
\<close>

fun only_after :: "(event \<Rightarrow> bool) \<Rightarrow> (event \<Rightarrow> bool) \<Rightarrow> event list \<Rightarrow> bool" where
  "only_after P Q [] = True"
| "only_after P Q (ev # evs) = (if P ev then False else if Q ev then True else only_after P Q evs)"

section \<open>The redirect target in the words of the specification\<close>

text \<open>
  "If redirect is absent, not a string, or does not start with /, use the configured
  trusted domain as-is; otherwise concatenate trusted domain + redirect."
\<close>

fun starts_with_slash :: "string \<Rightarrow> bool" where
  "starts_with_slash [] = False"
| "starts_with_slash (c # cs) = (c = CHR ''/'')"

definition spec_redirect_target :: "string \<Rightarrow> js_value \<Rightarrow> string" where
  "spec_redirect_target domain redirect =
     (case redirect of
        JString s \<Rightarrow> if starts_with_slash s then domain @ s else domain
      | JStringObject s \<Rightarrow> if starts_with_slash s then domain @ s else domain
      | _ \<Rightarrow> domain)"

section \<open>Sample collaborators\<close>

definition crypto_error :: js_error where
  "crypto_error = \<lparr>error_class = OtherError ''CryptoError'', message = ''Wrong passphrase''\<rparr>"

definition auth_error :: js_error where
  "auth_error = \<lparr>error_class = OtherError ''AuthError'', message = ''Authentication failed''\<rparr>"

definition network_error :: js_error where
  "network_error = \<lparr>error_class = OtherError ''NetworkError'', message = ''Service unavailable''\<rparr>"

definition cancel_error :: js_error where
  "cancel_error = \<lparr>error_class = OtherError ''UserAbortsOperationError'', message = ''Cancelled''\<rparr>"

definition sample_auth :: auth_env where
  "sample_auth =
     \<lparr>tr = (\<lambda>s. s),
      request_id = ''req-1'',
      is_auth_form = False,
      tab_id = 7,
      auth_verify = Inr (),
      server_key_changed = Inr False,
      is_server_key_expired = Inr False,
      retrieve_and_store_csrf_token = Inr (),
      get_and_decrypt_private_key = (\<lambda>p. if p = ''correct'' then Inr ''KEY'' else Inl crypto_error),
      auth_login = (\<lambda>k. Inr ()),
      start_check_auth_status_loop = Inr (),
      settings_sync = Inr (),
      passbolt_app_init = Inr (),
      trusted_domain = ''https://passbolt.dev'',
      url_href = Inr\<rparr>"

definition sample_form :: auth_env where
  "sample_form = sample_auth\<lparr>is_auth_form := True\<rparr>"

definition sample_login_refused :: auth_env where
  "sample_login_refused = sample_form\<lparr>auth_login := (\<lambda>k. Inl auth_error)\<rparr>"

definition sample_loop_fails :: auth_env where
  "sample_loop_fails = sample_auth\<lparr>start_check_auth_status_loop := Inl network_error\<rparr>"

definition sample_sync_fails :: auth_env where
  "sample_sync_fails = sample_auth\<lparr>settings_sync := Inl network_error\<rparr>"

definition sample_decrypt :: decrypt_env where
  "sample_decrypt =
     \<lparr>reply_id = ''req-2'',
      find_by_resource_id = (\<lambda>rid. Inr \<lparr>data = ''CIPHER''\<rparr>),
      legacy_find_one = (\<lambda>rid. Inr \<lparr>secrets = Some [\<lparr>data = ''OLD-CIPHER''\<rparr>]\<rparr>),
      passphrase_get = Inr ''correct'',
      progress_open = (\<lambda>title goals label. Inr ()),
      progress_update = (\<lambda>step label. Inr ()),
      progress_close = Inr (),
      decrypt_private_key = (\<lambda>p. if p = ''correct'' then Inr ''KEY'' else Inl crypto_error),
      decrypt_with_key = (\<lambda>c k. Inr (''plain:'' @ c)),
      primary_settles = 0\<rparr>"

definition sample_old_server :: decrypt_env where
  "sample_old_server = sample_decrypt\<lparr>find_by_resource_id := (\<lambda>rid. Inl network_error)\<rparr>"

definition sample_close_fails :: decrypt_env where
  "sample_close_fails = sample_decrypt\<lparr>progress_close := Inl network_error\<rparr>"

text \<open>The prompt is cancelled while the primary lookup, which will fail, is still pending.\<close>

definition sample_cancelled :: decrypt_env where
  "sample_cancelled =
     sample_decrypt
       \<lparr>passphrase_get := Inl cancel_error,
        find_by_resource_id := (\<lambda>rid. Inl network_error),
        legacy_find_one := (\<lambda>rid. Inl network_error),
        primary_settles := 1\<rparr>"

text \<open>The same, with the primary lookup failing before the prompt is answered.\<close>

definition sample_cancelled_after_fallback :: decrypt_env where
  "sample_cancelled_after_fallback = sample_cancelled\<lparr>primary_settles := 0\<rparr>"

text \<open>The dialog cannot be opened, and the primary lookup fails after everything else.\<close>

definition sample_open_fails :: decrypt_env where
  "sample_open_fails =
     sample_old_server
       \<lparr>progress_open := (\<lambda>title goals label. Inl network_error), primary_settles := 3\<rparr>"

lemmas sample_defs =
  sample_auth_def sample_form_def sample_login_refused_def sample_loop_fails_def
  sample_sync_fails_def sample_decrypt_def sample_old_server_def
  sample_close_fails_def sample_cancelled_def sample_cancelled_after_fallback_def
  sample_open_fails_def
  crypto_error_def auth_error_def network_error_def cancel_error_def

section \<open>Facts about the building blocks\<close>

lemmas run_defs =
  await_def call_def calls_def await_run_def not_awaited_def try_catch_def done_run_def
  throwing_def

lemma fst_await:
  "fst (await ev outcome rest) = ev # (case outcome of Inl e \<Rightarrow> [] | Inr v \<Rightarrow> fst (rest v))"
  by (simp add: await_def split: sum.splits prod.splits)

lemma snd_await:
  "snd (await ev outcome rest) = (case outcome of Inl e \<Rightarrow> Inl e | Inr v \<Rightarrow> snd (rest v))"
  by (simp add: await_def split: sum.splits prod.splits)

lemma fst_call: "fst (call ev rest) = ev # fst rest"
  by (simp add: call_def split: prod.splits)

lemma snd_call: "snd (call ev rest) = snd rest"
  by (simp add: call_def split: prod.splits)

lemma fst_calls: "fst (calls evs rest) = evs @ fst rest"
  by (simp add: calls_def split: prod.splits)

lemma snd_calls: "snd (calls evs rest) = snd rest"
  by (simp add: calls_def split: prod.splits)

lemma fst_throwing:
  "fst (throwing outcome rest) = (case outcome of Inl e \<Rightarrow> [] | Inr v \<Rightarrow> fst (rest v))"
  by (simp add: throwing_def split: sum.splits)

lemma snd_throwing:
  "snd (throwing outcome rest) = (case outcome of Inl e \<Rightarrow> Inl e | Inr v \<Rightarrow> snd (rest v))"
  by (simp add: throwing_def split: sum.splits)

lemma fst_await_run:
  "fst (await_run p rest) = fst p @ (case snd p of Inl e \<Rightarrow> [] | Inr v \<Rightarrow> fst (rest v))"
  by (simp add: await_run_def split: sum.splits prod.splits)

lemma snd_await_run:
  "snd (await_run p rest) = (case snd p of Inl e \<Rightarrow> Inl e | Inr v \<Rightarrow> snd (rest v))"
  by (simp add: await_run_def split: sum.splits prod.splits)

lemma fst_try_catch:
  "fst (try_catch body handler) =
     fst body @ (case snd body of Inl e \<Rightarrow> fst (handler e) | Inr v \<Rightarrow> [])"
  by (simp add: try_catch_def split: sum.splits prod.splits)

lemma snd_try_catch:
  "snd (try_catch body handler) =
     (case snd body of Inl e \<Rightarrow> snd (handler e) | Inr v \<Rightarrow> Inr v)"
  by (simp add: try_catch_def split: sum.splits prod.splits)

lemma fst_not_awaited: "fst (not_awaited p) = fst p"
  by (simp add: not_awaited_def)

lemma snd_not_awaited: "snd (not_awaited p) = Inr ()"
  by (simp add: not_awaited_def)

lemma fst_done_run: "fst done_run = []"
  by (simp add: done_run_def)

lemma snd_done_run: "snd done_run = Inr ()"
  by (simp add: done_run_def)

lemmas run_simps =
  fst_await snd_await fst_call snd_call fst_calls snd_calls fst_throwing snd_throwing
  fst_await_run snd_await_run fst_try_catch snd_try_catch fst_not_awaited snd_not_awaited
  fst_done_run snd_done_run

lemma count_where_Nil: "count_where P [] = 0"
  by (simp add: count_where_def)

lemma count_where_Cons:
  "count_where P (ev # evs) = (if P ev then Suc (count_where P evs) else count_where P evs)"
  by (simp add: count_where_def)

lemma count_where_append:
  "count_where P (evs @ evs') = count_where P evs + count_where P evs'"
  by (simp add: count_where_def)

lemmas count_where_simps = count_where_Nil count_where_Cons count_where_append

text \<open>What \<open>only_after\<close> says, by positions in the run.\<close>

lemma only_after_iff:
  "only_after P Q evs \<longleftrightarrow> (\<forall>i < length evs. P (evs ! i) \<longrightarrow> (\<exists>j < i. Q (evs ! j)))"
proof (induction evs)
  case Nil
  show ?case by simp
next
  case (Cons ev evs)
  have "(\<forall>i < length (ev # evs). P ((ev # evs) ! i) \<longrightarrow> (\<exists>j < i. Q ((ev # evs) ! j))) \<longleftrightarrow>
        \<not> P ev \<and> (\<forall>i < length evs. P (evs ! i) \<longrightarrow> Q ev \<or> (\<exists>j < i. Q (evs ! j)))"
    by (simp add: All_less_Suc2 Ex_less_Suc2)
  with Cons.IH show ?case by auto
qed

lemmas login_simps =
  login_def beforeLogin_def syncUserSettings_def handleLoginSuccess_def handleLoginError_def
  run_simps count_where_simps

text \<open>The condition of line 183 picks the target the specification describes.\<close>

lemma login_url_spec:
  "login_url env redirect = url_href env (spec_redirect_target (trusted_domain env) redirect)"
proof (cases redirect)
  case (JString s)
  then show ?thesis
    by (cases s) (simp_all add: login_url_def spec_redirect_target_def charAt_def)
next
  case (JStringObject s)
  then show ?thesis
    by (cases s) (simp_all add: login_url_def spec_redirect_target_def charAt_def)
qed (simp_all add: login_url_def spec_redirect_target_def)

section \<open>Verification of the server key\<close>

text \<open>
  Claim C2. When \<^verbatim>\<open>this.auth.verify()\<close> fails, the error that \<^verbatim>\<open>verify\<close> emits is
  chosen by the two probes, the key-changed probe first: if \<^verbatim>\<open>serverKeyChanged()\<close> answers
  true the error is a \<^verbatim>\<open>ServerKeyChangedError\<close>, whatever \<^verbatim>\<open>isServerKeyExpired()\<close> would
  answer (it is not even asked); otherwise, if \<^verbatim>\<open>isServerKeyExpired()\<close> answers true, it is a
  \<^verbatim>\<open>KeyIsExpiredError\<close>; otherwise the error caught is kept. In each of the three cases the
  message emitted is the notice "Could not verify server key.", a space, and the message
  of the specific cause, and exactly that one \<^verbatim>\<open>ERROR\<close> reply is emitted.
\<close>

theorem verify_error_classification:
  assumes "auth_verify env = Inl error"
  shows "(server_key_changed env = Inr True \<longrightarrow>
            verify env =
              ([AuthVerify, ServerKeyChanged,
                Emit (request_id env) ERROR (EmitableError
                  \<lparr>error_class = ServerKeyChangedError,
                   message = tr env ''Could not verify server key.'' @ '' '' @
                             tr env ''The server key has changed.''\<rparr>)], Inr ()))
       \<and> (server_key_changed env = Inr False \<and> is_server_key_expired env = Inr True \<longrightarrow>
            verify env =
              ([AuthVerify, ServerKeyChanged, IsServerKeyExpired,
                Emit (request_id env) ERROR (EmitableError
                  \<lparr>error_class = KeyIsExpiredError,
                   message = tr env ''Could not verify server key.'' @ '' '' @
                             tr env ''The server key is expired.''\<rparr>)], Inr ()))
       \<and> (server_key_changed env = Inr False \<and> is_server_key_expired env = Inr False \<longrightarrow>
            verify env =
              ([AuthVerify, ServerKeyChanged, IsServerKeyExpired,
                Emit (request_id env) ERROR (EmitableError
                  \<lparr>error_class = error_class error,
                   message = tr env ''Could not verify server key.'' @ '' '' @
                             message error\<rparr>)], Inr ()))"
  using assms
  by (simp add: verify_def emit_verify_error_def could_not_verify_def run_defs)

theorem verify_error_classification_witness:
  "verify (sample_auth\<lparr>auth_verify := Inl auth_error, server_key_changed := Inr True,
                        is_server_key_expired := Inr True\<rparr>) =
     ([AuthVerify, ServerKeyChanged,
       Emit ''req-1'' ERROR (EmitableError
         \<lparr>error_class = ServerKeyChangedError,
          message = ''Could not verify server key. The server key has changed.''\<rparr>)], Inr ())
   \<and> verify (sample_auth\<lparr>auth_verify := Inl auth_error, is_server_key_expired := Inr True\<rparr>) =
     ([AuthVerify, ServerKeyChanged, IsServerKeyExpired,
       Emit ''req-1'' ERROR (EmitableError
         \<lparr>error_class = KeyIsExpiredError,
          message = ''Could not verify server key. The server key is expired.''\<rparr>)], Inr ())
   \<and> verify (sample_auth\<lparr>auth_verify := Inl auth_error\<rparr>) =
     ([AuthVerify, ServerKeyChanged, IsServerKeyExpired,
       Emit ''req-1'' ERROR (EmitableError
         \<lparr>error_class = OtherError ''AuthError'',
          message = ''Could not verify server key. Authentication failed''\<rparr>)], Inr ())"
proof -
  let ?changed = "sample_auth\<lparr>auth_verify := Inl auth_error, server_key_changed := Inr True,
                              is_server_key_expired := Inr True\<rparr>"
  let ?expired = "sample_auth\<lparr>auth_verify := Inl auth_error, is_server_key_expired := Inr True\<rparr>"
  let ?other = "sample_auth\<lparr>auth_verify := Inl auth_error\<rparr>"
  have c: "auth_verify ?changed = Inl auth_error"
    and e: "auth_verify ?expired = Inl auth_error"
    and o: "auth_verify ?other = Inl auth_error"
    by simp_all
  show ?thesis
    using verify_error_classification [OF c] verify_error_classification [OF e]
      verify_error_classification [OF o]
    by (simp add: sample_auth_def auth_error_def)
qed


section \<open>Login\<close>

text \<open>
  Claim C1. \<^verbatim>\<open>login\<close> reports success (a \<^verbatim>\<open>SUCCESS\<close> reply, or the login-success message on
  the side channel of the login form) only if \<^verbatim>\<open>getAndDecryptPrivateKey\<close> returned a key and
  \<^verbatim>\<open>auth.login\<close> accepted that key, and then the run has the decryption, the remote login
  and the success reply in this order. If the decryption fails, exactly one failure reply
  (\<^verbatim>\<open>ERROR\<close>, or the login-failed message on the side channel) is emitted, no success
  reply is, \<^verbatim>\<open>auth.login\<close> is never called and the session-check loop is never started. If
  the remote login fails, exactly one failure reply is emitted, no success reply is, and
  the loop is never started.
\<close>

theorem login_success_requires_key_and_remote_login:
  "(\<forall>ev \<in> set (fst (login env passphrase remember redirect)). is_success_reply ev \<longrightarrow>
      (\<exists>privateKey post.
         get_and_decrypt_private_key env passphrase = Inr privateKey \<and>
         auth_login env privateKey = Inr () \<and>
         fst (login env passphrase remember redirect) =
           beforeLogin env @ RetrieveAndStoreCsrfToken # GetAndDecryptPrivateKey passphrase #
             AuthLogin privateKey # post \<and>
         ev \<in> set post))
   \<and> (\<forall>error. retrieve_and_store_csrf_token env = Inr () \<and>
         get_and_decrypt_private_key env passphrase = Inl error \<longrightarrow>
         count_where is_error_reply (fst (login env passphrase remember redirect)) = 1 \<and>
         count_where is_success_reply (fst (login env passphrase remember redirect)) = 0 \<and>
         count_where is_auth_login (fst (login env passphrase remember redirect)) = 0 \<and>
         StartCheckAuthStatusLoop \<notin> set (fst (login env passphrase remember redirect)))
   \<and> (\<forall>privateKey error. retrieve_and_store_csrf_token env = Inr () \<and>
         get_and_decrypt_private_key env passphrase = Inr privateKey \<and>
         auth_login env privateKey = Inl error \<longrightarrow>
         count_where is_error_reply (fst (login env passphrase remember redirect)) = 1 \<and>
         count_where is_success_reply (fst (login env passphrase remember redirect)) = 0 \<and>
         StartCheckAuthStatusLoop \<notin> set (fst (login env passphrase remember redirect)))"
proof -
  have success: "\<forall>ev \<in> set (fst (login env passphrase remember redirect)). is_success_reply ev \<longrightarrow>
      (\<exists>privateKey post.
         get_and_decrypt_private_key env passphrase = Inr privateKey \<and>
         auth_login env privateKey = Inr () \<and>
         fst (login env passphrase remember redirect) =
           beforeLogin env @ RetrieveAndStoreCsrfToken # GetAndDecryptPrivateKey passphrase #
             AuthLogin privateKey # post \<and>
         ev \<in> set post)"
    by (auto simp: login_simps split: sum.splits if_splits)
  have no_key: "\<forall>error. retrieve_and_store_csrf_token env = Inr () \<and>
         get_and_decrypt_private_key env passphrase = Inl error \<longrightarrow>
         count_where is_error_reply (fst (login env passphrase remember redirect)) = 1 \<and>
         count_where is_success_reply (fst (login env passphrase remember redirect)) = 0 \<and>
         count_where is_auth_login (fst (login env passphrase remember redirect)) = 0 \<and>
         StartCheckAuthStatusLoop \<notin> set (fst (login env passphrase remember redirect))"
    by (simp add: login_simps)
  have refused: "\<forall>privateKey error. retrieve_and_store_csrf_token env = Inr () \<and>
         get_and_decrypt_private_key env passphrase = Inr privateKey \<and>
         auth_login env privateKey = Inl error \<longrightarrow>
         count_where is_error_reply (fst (login env passphrase remember redirect)) = 1 \<and>
         count_where is_success_reply (fst (login env passphrase remember redirect)) = 0 \<and>
         StartCheckAuthStatusLoop \<notin> set (fst (login env passphrase remember redirect))"
    by (simp add: login_simps)
  show ?thesis using success no_key refused by blast
qed

theorem login_success_requires_key_and_remote_login_witness:
  "count_where is_error_reply (fst (login sample_auth ''wrong'' True JNull)) = 1
   \<and> count_where is_auth_login (fst (login sample_auth ''wrong'' True JNull)) = 0
   \<and> StartCheckAuthStatusLoop \<notin> set (fst (login sample_auth ''wrong'' True JNull))
   \<and> count_where is_error_reply (fst (login sample_login_refused ''correct'' True JNull)) = 1
   \<and> StartCheckAuthStatusLoop \<notin> set (fst (login sample_login_refused ''correct'' True JNull))
   \<and> (\<exists>post. fst (login sample_auth ''correct'' True JNull) =
         beforeLogin sample_auth @ RetrieveAndStoreCsrfToken # GetAndDecryptPrivateKey ''correct'' #
           AuthLogin ''KEY'' # post \<and> Emit ''req-1'' SUCCESS NoPayload \<in> set post)"
proof -
  have wrong: "retrieve_and_store_csrf_token sample_auth = Inr () \<and>
      get_and_decrypt_private_key sample_auth ''wrong'' = Inl crypto_error"
    by (simp add: sample_defs)
  have refused: "retrieve_and_store_csrf_token sample_login_refused = Inr () \<and>
      get_and_decrypt_private_key sample_login_refused ''correct'' = Inr ''KEY'' \<and>
      auth_login sample_login_refused ''KEY'' = Inl auth_error"
    by (simp add: sample_defs)
  have ok: "Emit ''req-1'' SUCCESS NoPayload \<in> set (fst (login sample_auth ''correct'' True JNull))"
    "is_success_reply (Emit ''req-1'' SUCCESS NoPayload)"
    "get_and_decrypt_private_key sample_auth ''correct'' = Inr ''KEY''"
    by (simp_all add: login_simps sample_defs)
  from login_success_requires_key_and_remote_login [of sample_auth "''wrong''" True JNull] wrong
  have a: "count_where is_error_reply (fst (login sample_auth ''wrong'' True JNull)) = 1
   \<and> count_where is_auth_login (fst (login sample_auth ''wrong'' True JNull)) = 0
   \<and> StartCheckAuthStatusLoop \<notin> set (fst (login sample_auth ''wrong'' True JNull))"
    by blast
  from login_success_requires_key_and_remote_login [of sample_login_refused "''correct''" True JNull]
    refused
  have b: "count_where is_error_reply (fst (login sample_login_refused ''correct'' True JNull)) = 1
      \<and> StartCheckAuthStatusLoop \<notin> set (fst (login sample_login_refused ''correct'' True JNull))"
    by blast
  from login_success_requires_key_and_remote_login [of sample_auth "''correct''" True JNull] ok
  have c: "\<exists>post. fst (login sample_auth ''correct'' True JNull) =
         beforeLogin sample_auth @ RetrieveAndStoreCsrfToken # GetAndDecryptPrivateKey ''correct'' #
           AuthLogin ''KEY'' # post \<and> Emit ''req-1'' SUCCESS NoPayload \<in> set post"
    by (metis sum.inject(2))
  from a b c show ?thesis by blast
qed

text \<open>
  Claim C7. In every \<^verbatim>\<open>login\<close> that reaches line 126 (the CSRF token was stored, the key
  decrypted and the remote login accepted), \<^verbatim>\<open>storeMasterPasswordTemporarily\<close> is called if
  and only if \<^verbatim>\<open>remember\<close> is true, once, with the passphrase of the call and the lifetime
  \<open>- 1\<close> ("until logout"). A session that held no passphrase before the call holds
  afterwards that passphrase with lifetime \<open>- 1\<close> when \<^verbatim>\<open>remember\<close> is true, and none when it
  is false; whatever the slot held before, a call with \<^verbatim>\<open>remember\<close> false leaves it as it was.
\<close>

theorem login_retains_passphrase_iff_remember:
  assumes "retrieve_and_store_csrf_token env = Inr ()"
    and "get_and_decrypt_private_key env passphrase = Inr privateKey"
    and "auth_login env privateKey = Inr ()"
  shows "(\<forall>p t. StoreMasterPasswordTemporarily p t \<in> set (fst (login env passphrase remember redirect))
            \<longleftrightarrow> remember \<and> p = passphrase \<and> t = - 1)
       \<and> count_where is_store_passphrase (fst (login env passphrase remember redirect)) =
            (if remember then 1 else 0)
       \<and> retained_after (fst (login env passphrase remember redirect)) None =
            (if remember then Some (passphrase, - 1) else None)
       \<and> (\<forall>slot. retained_after (fst (login env passphrase remember redirect)) slot =
            (if remember then Some (passphrase, - 1) else slot))"
  using assms
  by (auto simp: login_simps split: sum.splits if_splits)

theorem login_retains_passphrase_iff_remember_witness:
  "retained_after (fst (login sample_auth ''correct'' True JNull)) None = Some (''correct'', - 1)
   \<and> retained_after (fst (login sample_auth ''correct'' False JNull)) None = None
   \<and> count_where is_store_passphrase (fst (login sample_loop_fails ''correct'' True JNull)) = 1"
proof -
  have ok: "retrieve_and_store_csrf_token sample_auth = Inr ()"
    "get_and_decrypt_private_key sample_auth ''correct'' = Inr ''KEY''"
    "auth_login sample_auth ''KEY'' = Inr ()"
    by (simp_all add: sample_defs)
  have loop: "retrieve_and_store_csrf_token sample_loop_fails = Inr ()"
    "get_and_decrypt_private_key sample_loop_fails ''correct'' = Inr ''KEY''"
    "auth_login sample_loop_fails ''KEY'' = Inr ()"
    by (simp_all add: sample_defs)
  show ?thesis
    using login_retains_passphrase_iff_remember [OF ok, of True JNull]
      login_retains_passphrase_iff_remember [OF ok, of False JNull]
      login_retains_passphrase_iff_remember [OF loop, of True JNull]
    by simp
qed

text \<open>
  Claim C8. When the caller is the login form, every success message that \<^verbatim>\<open>login\<close> sends on
  the side channel carries the \<^verbatim>\<open>href\<close> of the URL built from this target: the trusted
  domain alone if \<^verbatim>\<open>redirect\<close> is absent, is not a string, or does not start with \<open>/\<close>;
  the trusted domain followed by \<^verbatim>\<open>redirect\<close> otherwise. When all the steps of the login
  succeed and that URL can be built, this message is sent, as the last event of the run.
\<close>

theorem login_redirect_url:
  assumes "is_auth_form env"
  shows "(\<forall>ev \<in> set (fst (login env passphrase remember redirect)). is_success_reply ev \<longrightarrow>
            (\<exists>href. url_href env (spec_redirect_target (trusted_domain env) redirect) = Inr href \<and>
               ev = AuthEmit (tab_id env) ''passbolt.auth.login-success''
                      [tr env ''You are now logged in!'', href]))
       \<and> (\<forall>privateKey href.
            retrieve_and_store_csrf_token env = Inr () \<and>
            get_and_decrypt_private_key env passphrase = Inr privateKey \<and>
            auth_login env privateKey = Inr () \<and>
            start_check_auth_status_loop env = Inr () \<and>
            passbolt_app_init env = Inr () \<and>
            url_href env (spec_redirect_target (trusted_domain env) redirect) = Inr href \<longrightarrow>
            last (fst (login env passphrase remember redirect)) =
              AuthEmit (tab_id env) ''passbolt.auth.login-success''
                [tr env ''You are now logged in!'', href])"
proof -
  have sent: "\<forall>ev \<in> set (fst (login env passphrase remember redirect)). is_success_reply ev \<longrightarrow>
            (\<exists>href. url_href env (spec_redirect_target (trusted_domain env) redirect) = Inr href \<and>
               ev = AuthEmit (tab_id env) ''passbolt.auth.login-success''
                      [tr env ''You are now logged in!'', href])"
    using assms by (auto simp: login_simps login_url_spec split: sum.splits if_splits)
  have reached: "\<forall>privateKey href.
            retrieve_and_store_csrf_token env = Inr () \<and>
            get_and_decrypt_private_key env passphrase = Inr privateKey \<and>
            auth_login env privateKey = Inr () \<and>
            start_check_auth_status_loop env = Inr () \<and>
            passbolt_app_init env = Inr () \<and>
            url_href env (spec_redirect_target (trusted_domain env) redirect) = Inr href \<longrightarrow>
            last (fst (login env passphrase remember redirect)) =
              AuthEmit (tab_id env) ''passbolt.auth.login-success''
                [tr env ''You are now logged in!'', href]"
    using assms by (auto simp: login_simps login_url_spec split: sum.splits if_splits)
  from sent reached show ?thesis by blast
qed

theorem login_redirect_url_witness:
  "last (fst (login sample_form ''correct'' False (JString ''/app/passwords''))) =
     AuthEmit 7 ''passbolt.auth.login-success''
       [''You are now logged in!'', ''https://passbolt.dev/app/passwords'']
   \<and> last (fst (login sample_form ''correct'' False (JString ''//evil.example''))) =
     AuthEmit 7 ''passbolt.auth.login-success''
       [''You are now logged in!'', ''https://passbolt.dev//evil.example'']
   \<and> last (fst (login sample_form ''correct'' False (JString ''app''))) =
     AuthEmit 7 ''passbolt.auth.login-success'' [''You are now logged in!'', ''https://passbolt.dev'']
   \<and> last (fst (login sample_form ''correct'' False JUndefined)) =
     AuthEmit 7 ''passbolt.auth.login-success'' [''You are now logged in!'', ''https://passbolt.dev'']
   \<and> last (fst (login sample_form ''correct'' False (JNumber 5))) =
     AuthEmit 7 ''passbolt.auth.login-success'' [''You are now logged in!'', ''https://passbolt.dev'']"
proof -
  have form: "is_auth_form sample_form"
    by (simp add: sample_defs)
  have ok: "retrieve_and_store_csrf_token sample_form = Inr ()"
    "get_and_decrypt_private_key sample_form ''correct'' = Inr ''KEY''"
    "auth_login sample_form ''KEY'' = Inr ()"
    "start_check_auth_status_loop sample_form = Inr ()"
    "passbolt_app_init sample_form = Inr ()"
    by (simp_all add: sample_defs)
  have sample: "tab_id sample_form = 7" "tr sample_form = (\<lambda>s. s)"
    "url_href sample_form = Inr" "trusted_domain sample_form = ''https://passbolt.dev''"
    by (simp_all add: sample_defs)
  show ?thesis
    using login_redirect_url [OF form, of "''correct''" False "JString ''/app/passwords''"]
      login_redirect_url [OF form, of "''correct''" False "JString ''//evil.example''"]
      login_redirect_url [OF form, of "''correct''" False "JString ''app''"]
      login_redirect_url [OF form, of "''correct''" False JUndefined]
      login_redirect_url [OF form, of "''correct''" False "JNumber 5"]
    by (simp add: ok sample spec_redirect_target_def)
qed

text \<open>
  Claim C10. In every run of \<^verbatim>\<open>login\<close>, whoever the caller is (login form or not), a
  success reply is emitted only after \<^verbatim>\<open>app.pageMods.PassboltApp.init()\<close> has been called,
  and only if that call resolved: at every position of the run that holds a success
  reply, an earlier position holds the call of \<^verbatim>\<open>PassboltApp.init\<close>.
\<close>

theorem login_app_init_before_success:
  "only_after is_success_reply (\<lambda>ev. ev = PassboltAppInit)
     (fst (login env passphrase remember redirect))
   \<and> (\<forall>i < length (fst (login env passphrase remember redirect)).
        is_success_reply (fst (login env passphrase remember redirect) ! i) \<longrightarrow>
        passbolt_app_init env = Inr () \<and>
        (\<exists>j < i. fst (login env passphrase remember redirect) ! j = PassboltAppInit))"
proof -
  have order: "only_after is_success_reply (\<lambda>ev. ev = PassboltAppInit)
     (fst (login env passphrase remember redirect))"
    by (auto simp: login_simps split: sum.splits if_splits)
  have resolved: "\<forall>ev \<in> set (fst (login env passphrase remember redirect)).
      is_success_reply ev \<longrightarrow> passbolt_app_init env = Inr ()"
    by (auto simp: login_simps split: sum.splits if_splits)
  have "\<forall>i < length (fst (login env passphrase remember redirect)).
        is_success_reply (fst (login env passphrase remember redirect) ! i) \<longrightarrow>
        passbolt_app_init env = Inr ()"
    using resolved nth_mem by blast
  with order show ?thesis
    by (simp add: only_after_iff)
qed

theorem login_app_init_before_success_witness:
  "(\<exists>j < 7. fst (login sample_auth ''correct'' True JNull) ! j = PassboltAppInit)
   \<and> (\<exists>j < 8. fst (login sample_form ''correct'' True JNull) ! j = PassboltAppInit)"
proof -
  have direct: "7 < length (fst (login sample_auth ''correct'' True JNull))"
    "is_success_reply (fst (login sample_auth ''correct'' True JNull) ! 7)"
    by (simp_all add: login_simps sample_defs)
  have form: "8 < length (fst (login sample_form ''correct'' True JNull))"
    "is_success_reply (fst (login sample_form ''correct'' True JNull) ! 8)"
    by (simp_all add: login_simps login_url_def sample_defs)
  from login_app_init_before_success [of sample_auth "''correct''" True JNull] direct
    login_app_init_before_success [of sample_form "''correct''" True JNull] form
  show ?thesis by blast
qed

text \<open>\<^verbatim>\<open>syncUserSettings\<close> catches every failure of the sync: its own promise always resolves.\<close>

lemma syncUserSettings_resolves: "snd (syncUserSettings env) = Inr ()"
  by (simp add: syncUserSettings_def run_simps split: sum.splits)

text \<open>
  Claim C6. In every \<^verbatim>\<open>login\<close> in which every collaborator succeeds except the settings
  sync (the CSRF token, the key decryption, the remote login, the start of the
  session-check loop and \<^verbatim>\<open>PassboltApp.init()\<close> succeed, and for a caller that is the login
  form the redirect URL can be built) while \<^verbatim>\<open>user.settings.sync()\<close> fails, the failure is
  swallowed: \<^verbatim>\<open>setDefaults()\<close> is called right after the failed sync, no failure reply is
  emitted, the promise of \<^verbatim>\<open>login\<close> resolves, and \<^verbatim>\<open>login\<close> reports success, exactly once
  and as the last event of the run (the plain \<^verbatim>\<open>SUCCESS\<close> with no payload for a caller that is
  not the login form, the login-success message on the side channel for the login form).
  With \<^verbatim>\<open>remember\<close> false a session that held no passphrase still holds none.
\<close>

theorem login_sync_failure_swallowed:
  assumes "retrieve_and_store_csrf_token env = Inr ()"
    and "get_and_decrypt_private_key env passphrase = Inr privateKey"
    and "auth_login env privateKey = Inr ()"
    and "start_check_auth_status_loop env = Inr ()"
    and "settings_sync env = Inl error"
    and "passbolt_app_init env = Inr ()"
    and "is_auth_form env \<longrightarrow>
           url_href env (spec_redirect_target (trusted_domain env) redirect) = Inr href"
  shows "login env passphrase remember redirect =
           (beforeLogin env @
            [RetrieveAndStoreCsrfToken, GetAndDecryptPrivateKey passphrase, AuthLogin privateKey] @
            (if remember then [StoreMasterPasswordTemporarily passphrase (- 1)] else []) @
            [StartCheckAuthStatusLoop, SettingsSync, SettingsSetDefaults, PassboltAppInit,
             if is_auth_form env
             then AuthEmit (tab_id env) ''passbolt.auth.login-success''
                    [tr env ''You are now logged in!'', href]
             else Emit (request_id env) SUCCESS NoPayload],
            Inr ())
       \<and> count_where is_error_reply (fst (login env passphrase remember redirect)) = 0
       \<and> count_where is_success_reply (fst (login env passphrase remember redirect)) = 1
       \<and> (\<not> remember \<longrightarrow>
            retained_after (fst (login env passphrase remember redirect)) None = None)"
proof -
  have run: "login env passphrase remember redirect =
           (beforeLogin env @
            [RetrieveAndStoreCsrfToken, GetAndDecryptPrivateKey passphrase, AuthLogin privateKey] @
            (if remember then [StoreMasterPasswordTemporarily passphrase (- 1)] else []) @
            [StartCheckAuthStatusLoop, SettingsSync, SettingsSetDefaults, PassboltAppInit,
             if is_auth_form env
             then AuthEmit (tab_id env) ''passbolt.auth.login-success''
                    [tr env ''You are now logged in!'', href]
             else Emit (request_id env) SUCCESS NoPayload],
            Inr ())"
    using assms
    by (simp add: login_def syncUserSettings_def handleLoginSuccess_def handleLoginError_def
        login_url_spec run_simps prod_eq_iff)
  have no_error: "count_where is_error_reply (fst (login env passphrase remember redirect)) = 0"
    unfolding run by (simp add: beforeLogin_def count_where_simps)
  have success: "count_where is_success_reply (fst (login env passphrase remember redirect)) = 1"
    unfolding run by (simp add: beforeLogin_def count_where_simps)
  have retained: "\<not> remember \<longrightarrow>
            retained_after (fst (login env passphrase remember redirect)) None = None"
    unfolding run by (simp add: beforeLogin_def)
  from run no_error success retained show ?thesis by blast
qed

theorem login_sync_failure_swallowed_witness:
  "login sample_sync_fails ''correct'' False JNull =
     ([RetrieveAndStoreCsrfToken, GetAndDecryptPrivateKey ''correct'', AuthLogin ''KEY'',
       StartCheckAuthStatusLoop, SettingsSync, SettingsSetDefaults, PassboltAppInit,
       Emit ''req-1'' SUCCESS NoPayload], Inr ())
   \<and> count_where is_error_reply (fst (login sample_sync_fails ''correct'' False JNull)) = 0
   \<and> count_where is_success_reply (fst (login sample_sync_fails ''correct'' False JNull)) = 1
   \<and> retained_after (fst (login sample_sync_fails ''correct'' False JNull)) None = None
   \<and> login (sample_form\<lparr>settings_sync := Inl network_error\<rparr>) ''correct'' False (JString ''/app'') =
     ([AuthEmit 7 ''passbolt.auth.login-processing'' [''Logging in''],
       RetrieveAndStoreCsrfToken, GetAndDecryptPrivateKey ''correct'', AuthLogin ''KEY'',
       StartCheckAuthStatusLoop, SettingsSync, SettingsSetDefaults, PassboltAppInit,
       AuthEmit 7 ''passbolt.auth.login-success''
         [''You are now logged in!'', ''https://passbolt.dev/app'']], Inr ())"
proof -
  let ?form = "sample_form\<lparr>settings_sync := Inl network_error\<rparr>"
  have direct: "retrieve_and_store_csrf_token sample_sync_fails = Inr ()"
    "get_and_decrypt_private_key sample_sync_fails ''correct'' = Inr ''KEY''"
    "auth_login sample_sync_fails ''KEY'' = Inr ()"
    "start_check_auth_status_loop sample_sync_fails = Inr ()"
    "settings_sync sample_sync_fails = Inl network_error"
    "passbolt_app_init sample_sync_fails = Inr ()"
    "is_auth_form sample_sync_fails \<longrightarrow>
       url_href sample_sync_fails (spec_redirect_target (trusted_domain sample_sync_fails) JNull) =
       Inr ''''"
    by (simp_all add: sample_defs)
  have form: "retrieve_and_store_csrf_token ?form = Inr ()"
    "get_and_decrypt_private_key ?form ''correct'' = Inr ''KEY''"
    "auth_login ?form ''KEY'' = Inr ()"
    "start_check_auth_status_loop ?form = Inr ()"
    "settings_sync ?form = Inl network_error"
    "passbolt_app_init ?form = Inr ()"
    "is_auth_form ?form \<longrightarrow>
       url_href ?form (spec_redirect_target (trusted_domain ?form) (JString ''/app'')) =
       Inr ''https://passbolt.dev/app''"
    by (simp_all add: sample_defs spec_redirect_target_def)
  have sample: "\<not> is_auth_form sample_sync_fails" "request_id sample_sync_fails = ''req-1''"
    "is_auth_form ?form" "tab_id ?form = 7" "tr ?form = (\<lambda>s. s)"
    by (simp_all add: sample_defs)
  from login_sync_failure_swallowed [OF direct, of False]
  have a: "login sample_sync_fails ''correct'' False JNull =
     ([RetrieveAndStoreCsrfToken, GetAndDecryptPrivateKey ''correct'', AuthLogin ''KEY'',
       StartCheckAuthStatusLoop, SettingsSync, SettingsSetDefaults, PassboltAppInit,
       Emit ''req-1'' SUCCESS NoPayload], Inr ())
   \<and> count_where is_error_reply (fst (login sample_sync_fails ''correct'' False JNull)) = 0
   \<and> count_where is_success_reply (fst (login sample_sync_fails ''correct'' False JNull)) = 1
   \<and> retained_after (fst (login sample_sync_fails ''correct'' False JNull)) None = None"
    by (simp add: sample beforeLogin_def count_where_simps)
  from login_sync_failure_swallowed [OF form, of False]
  have b: "login ?form ''correct'' False (JString ''/app'') =
     ([AuthEmit 7 ''passbolt.auth.login-processing'' [''Logging in''],
       RetrieveAndStoreCsrfToken, GetAndDecryptPrivateKey ''correct'', AuthLogin ''KEY'',
       StartCheckAuthStatusLoop, SettingsSync, SettingsSetDefaults, PassboltAppInit,
       AuthEmit 7 ''passbolt.auth.login-success''
         [''You are now logged in!'', ''https://passbolt.dev/app'']], Inr ())"
    by (simp add: sample beforeLogin_def)
  from a b show ?thesis by blast
qed

text \<open>
  Claim C9, as amended. In every \<^verbatim>\<open>login\<close> in which the remote login succeeds,
  \<^verbatim>\<open>startCheckAuthStatusLoop()\<close> is called exactly once, before the settings sync, the
  initialisation of the application and any success reply, and its promise is awaited
  inside the \<^verbatim>\<open>try\<close>: if it rejects, \<^verbatim>\<open>login\<close> goes to \<^verbatim>\<open>handleLoginError\<close> with that error
  and neither synchronises the settings nor reports success; if it resolves, \<^verbatim>\<open>login\<close>
  goes on to \<^verbatim>\<open>syncUserSettings\<close> and \<^verbatim>\<open>handleLoginSuccess\<close>.
\<close>

theorem login_awaits_loop_start:
  assumes "retrieve_and_store_csrf_token env = Inr ()"
    and "get_and_decrypt_private_key env passphrase = Inr privateKey"
    and "auth_login env privateKey = Inr ()"
  shows "count_where (\<lambda>ev. ev = StartCheckAuthStatusLoop)
           (fst (login env passphrase remember redirect)) = 1
       \<and> only_after (\<lambda>ev. ev = SettingsSync \<or> ev = PassboltAppInit \<or> is_success_reply ev)
           (\<lambda>ev. ev = StartCheckAuthStatusLoop) (fst (login env passphrase remember redirect))
       \<and> (\<forall>error. start_check_auth_status_loop env = Inl error \<longrightarrow>
            fst (login env passphrase remember redirect) =
              beforeLogin env @
              [RetrieveAndStoreCsrfToken, GetAndDecryptPrivateKey passphrase, AuthLogin privateKey] @
              (if remember then [StoreMasterPasswordTemporarily passphrase (- 1)] else []) @
              [StartCheckAuthStatusLoop] @ fst (handleLoginError env error) \<and>
            SettingsSync \<notin> set (fst (login env passphrase remember redirect)) \<and>
            count_where is_success_reply (fst (login env passphrase remember redirect)) = 0 \<and>
            count_where is_error_reply (fst (login env passphrase remember redirect)) = 1)
       \<and> (start_check_auth_status_loop env = Inr () \<longrightarrow>
            fst (login env passphrase remember redirect) =
              beforeLogin env @
              [RetrieveAndStoreCsrfToken, GetAndDecryptPrivateKey passphrase, AuthLogin privateKey] @
              (if remember then [StoreMasterPasswordTemporarily passphrase (- 1)] else []) @
              [StartCheckAuthStatusLoop] @ fst (syncUserSettings env) @
              fst (handleLoginSuccess env redirect))"
proof -
  have once: "count_where (\<lambda>ev. ev = StartCheckAuthStatusLoop)
           (fst (login env passphrase remember redirect)) = 1"
    using assms by (auto simp: login_simps split: sum.splits if_splits)
  have order: "only_after (\<lambda>ev. ev = SettingsSync \<or> ev = PassboltAppInit \<or> is_success_reply ev)
           (\<lambda>ev. ev = StartCheckAuthStatusLoop) (fst (login env passphrase remember redirect))"
    using assms by (auto simp: login_simps split: sum.splits if_splits)
  have rejected: "\<forall>error. start_check_auth_status_loop env = Inl error \<longrightarrow>
            fst (login env passphrase remember redirect) =
              beforeLogin env @
              [RetrieveAndStoreCsrfToken, GetAndDecryptPrivateKey passphrase, AuthLogin privateKey] @
              (if remember then [StoreMasterPasswordTemporarily passphrase (- 1)] else []) @
              [StartCheckAuthStatusLoop] @ fst (handleLoginError env error) \<and>
            SettingsSync \<notin> set (fst (login env passphrase remember redirect)) \<and>
            count_where is_success_reply (fst (login env passphrase remember redirect)) = 0 \<and>
            count_where is_error_reply (fst (login env passphrase remember redirect)) = 1"
    using assms by (auto simp: login_simps)
  have resolved: "start_check_auth_status_loop env = Inr () \<longrightarrow>
            fst (login env passphrase remember redirect) =
              beforeLogin env @
              [RetrieveAndStoreCsrfToken, GetAndDecryptPrivateKey passphrase, AuthLogin privateKey] @
              (if remember then [StoreMasterPasswordTemporarily passphrase (- 1)] else []) @
              [StartCheckAuthStatusLoop] @ fst (syncUserSettings env) @
              fst (handleLoginSuccess env redirect)"
    using assms by (simp add: login_def run_simps syncUserSettings_resolves)
  from once order rejected resolved show ?thesis by blast
qed

theorem login_awaits_loop_start_witness:
  "fst (login sample_form ''correct'' True JNull) =
     [AuthEmit 7 ''passbolt.auth.login-processing'' [''Logging in''],
      RetrieveAndStoreCsrfToken, GetAndDecryptPrivateKey ''correct'', AuthLogin ''KEY'',
      StoreMasterPasswordTemporarily ''correct'' (- 1), StartCheckAuthStatusLoop, SettingsSync,
      PassboltAppInit,
      AuthEmit 7 ''passbolt.auth.login-success'' [''You are now logged in!'', ''https://passbolt.dev'']]
   \<and> SettingsSync \<notin> set (fst (login sample_loop_fails ''correct'' True JNull))
   \<and> count_where is_error_reply (fst (login sample_loop_fails ''correct'' True JNull)) = 1"
proof -
  have form: "retrieve_and_store_csrf_token sample_form = Inr ()"
    "get_and_decrypt_private_key sample_form ''correct'' = Inr ''KEY''"
    "auth_login sample_form ''KEY'' = Inr ()"
    by (simp_all add: sample_defs)
  have loop: "retrieve_and_store_csrf_token sample_loop_fails = Inr ()"
    "get_and_decrypt_private_key sample_loop_fails ''correct'' = Inr ''KEY''"
    "auth_login sample_loop_fails ''KEY'' = Inr ()"
    by (simp_all add: sample_defs)
  have resolves: "start_check_auth_status_loop sample_form = Inr ()"
    and rejects: "start_check_auth_status_loop sample_loop_fails = Inl network_error"
    by (simp_all add: sample_defs)
  have rest: "beforeLogin sample_form = [AuthEmit 7 ''passbolt.auth.login-processing'' [''Logging in'']]"
    "fst (syncUserSettings sample_form) = [SettingsSync]"
    "fst (handleLoginSuccess sample_form JNull) =
       [PassboltAppInit,
        AuthEmit 7 ''passbolt.auth.login-success'' [''You are now logged in!'', ''https://passbolt.dev'']]"
    by (simp_all add: beforeLogin_def syncUserSettings_def handleLoginSuccess_def login_url_def
        run_simps sample_defs)
  from login_awaits_loop_start [OF form, of True JNull] resolves
  have "fst (login sample_form ''correct'' True JNull) =
      beforeLogin sample_form @
      [RetrieveAndStoreCsrfToken, GetAndDecryptPrivateKey ''correct'', AuthLogin ''KEY''] @
      (if True then [StoreMasterPasswordTemporarily ''correct'' (- 1)] else []) @
      [StartCheckAuthStatusLoop] @ fst (syncUserSettings sample_form) @
      fst (handleLoginSuccess sample_form JNull)"
    by blast
  then have resolved: "fst (login sample_form ''correct'' True JNull) =
     [AuthEmit 7 ''passbolt.auth.login-processing'' [''Logging in''],
      RetrieveAndStoreCsrfToken, GetAndDecryptPrivateKey ''correct'', AuthLogin ''KEY'',
      StoreMasterPasswordTemporarily ''correct'' (- 1), StartCheckAuthStatusLoop, SettingsSync,
      PassboltAppInit,
      AuthEmit 7 ''passbolt.auth.login-success'' [''You are now logged in!'', ''https://passbolt.dev'']]"
    by (simp add: rest)
  from login_awaits_loop_start [OF loop, of True JNull] rejects
  have rejected: "SettingsSync \<notin> set (fst (login sample_loop_fails ''correct'' True JNull))
      \<and> count_where is_error_reply (fst (login sample_loop_fails ''correct'' True JNull)) = 1"
    by blast
  from resolved rejected show ?thesis by blast
qed

text \<open>
  Claim C9 as stated has the loop started without waiting for it: whatever becomes of the
  promise of \<^verbatim>\<open>startCheckAuthStatusLoop()\<close>, \<^verbatim>\<open>login\<close> would go on to the settings sync and
  the success reply. The source awaits it (line 129): here the remote login succeeds, the
  promise rejects, and \<^verbatim>\<open>login\<close> answers \<^verbatim>\<open>ERROR\<close> without ever calling the settings sync.
\<close>

theorem login_loop_start_awaited_counterexample:
  "auth_login sample_loop_fails ''KEY'' = Inr ()
   \<and> login sample_loop_fails ''correct'' False JNull =
       ([RetrieveAndStoreCsrfToken, GetAndDecryptPrivateKey ''correct'', AuthLogin ''KEY'',
         StartCheckAuthStatusLoop, Emit ''req-1'' ERROR (EmitableError network_error)], Inr ())
   \<and> SettingsSync \<notin> set (fst (login sample_loop_fails ''correct'' False JNull))
   \<and> count_where is_success_reply (fst (login sample_loop_fails ''correct'' False JNull)) = 0"
  by (simp add: login_simps sample_defs prod_eq_iff)

section \<open>Decryption of a secret\<close>

lemma fst_awaiting:
  "fst (awaiting ev outcome rest) =
     ev # Suspended # (case outcome of Inl e \<Rightarrow> [] | Inr v \<Rightarrow> fst (rest v))"
  by (simp add: awaiting_def split: sum.splits prod.splits)

lemma snd_awaiting:
  "snd (awaiting ev outcome rest) = (case outcome of Inl e \<Rightarrow> Inl e | Inr v \<Rightarrow> snd (rest v))"
  by (simp add: awaiting_def split: sum.splits prod.splits)

lemma fst_joining:
  "fst (joining promise rest) =
     Joined # (case snd promise of Inl e \<Rightarrow> [] | Inr v \<Rightarrow> fst (rest v))"
  by (simp add: joining_def split: sum.splits prod.splits)

lemma snd_joining:
  "snd (joining promise rest) =
     (case snd promise of Inl e \<Rightarrow> Inl e | Inr v \<Rightarrow> snd (rest v))"
  by (simp add: joining_def split: sum.splits prod.splits)

lemmas decrypt_run_simps = run_simps fst_awaiting snd_awaiting fst_joining snd_joining

text \<open>
  Scheduling the fetch moves no call of \<^verbatim>\<open>decrypt\<close> and loses none of the fetch: it only
  takes the waits out of the run.
\<close>

lemma count_where_schedule:
  assumes "\<not> P Suspended" and "\<not> P Joined"
  shows "count_where P (schedule n later evs) = count_where P later + count_where P evs"
  using assms
  by (induction n later evs rule: schedule.induct)
    (simp_all add: count_where_simps split: nat.splits)

lemma set_schedule: "set (schedule n later evs) \<subseteq> set later \<union> set evs"
  by (induction n later evs rule: schedule.induct) (auto split: nat.splits)

lemma only_after_quiet:
  assumes "\<forall>ev \<in> set later. \<not> P ev \<and> \<not> Q ev"
  shows "only_after P Q (later @ evs) = only_after P Q evs"
  using assms by (induction later) simp_all

lemma only_after_schedule:
  assumes "\<forall>ev \<in> set later. \<not> P ev \<and> \<not> Q ev"
    and "\<not> P Suspended" and "\<not> Q Suspended" and "\<not> P Joined" and "\<not> Q Joined"
  shows "only_after P Q (schedule n later evs) = only_after P Q evs"
  using assms
proof (induction n later evs rule: schedule.induct)
  case (1 n later)
  then show ?case
    using only_after_quiet [of later P Q "[]"] by simp
next
  case (2 n later evs)
  then show ?case
    by (cases n) (simp_all add: only_after_quiet)
next
  case (3 n later evs)
  then show ?case
    by (simp add: only_after_quiet)
qed simp_all

text \<open>The calls of \<^verbatim>\<open>_getSecret\<close>: the primary lookup, then the legacy one if that failed.\<close>

lemma getSecret_calls:
  "fst (getSecret env resourceId) =
     FindByResourceId resourceId #
       (if isl (find_by_resource_id env resourceId) then [LegacyFindOne resourceId] else [])"
  by (simp add: getSecret_def run_simps split: sum.splits)

text \<open>
  The body of the second \<^verbatim>\<open>try\<close>, whatever the promise of the fetch: it opens the progress
  dialog first, emits no \<^verbatim>\<open>ERROR\<close>, and calls \<^verbatim>\<open>close\<close> exactly when it has emitted
  \<^verbatim>\<open>SUCCESS\<close>; if it fails after that, it is \<^verbatim>\<open>close\<close> that failed.
\<close>

lemma decrypt_try_shape:
  assumes "fst (decrypt_try env p passphrase) = evs" and "snd (decrypt_try env p passphrase) = r"
  shows "count_where is_progress_open evs = 1
       \<and> (\<exists>rest. evs = ProgressOpen ''Decrypting...'' 2 ''Decrypting private key'' # rest)
       \<and> count_where is_error_reply evs = 0
       \<and> count_where is_success_reply evs \<le> 1
       \<and> count_where is_progress_close evs = count_where is_success_reply evs
       \<and> count_where is_legacy_find evs = 0
       \<and> count_where is_primary_find evs = 0
       \<and> (r = Inr () \<longrightarrow> count_where is_success_reply evs = 1)
       \<and> (\<forall>e. r = Inl e \<and> count_where is_success_reply evs = 1 \<longrightarrow> progress_close env = Inl e)"
  using assms
  by (auto simp: decrypt_try_def secret_data_def decrypt_run_simps count_where_def
      split: sum.splits option.splits)

lemma decrypt_main_calls:
  assumes "passphrase_get env = Inr passphrase"
  shows "fst (decrypt_main env p) =
           PassphraseGet # Suspended # fst (decrypt_try env p passphrase) @
           (case snd (decrypt_try env p passphrase) of
              Inl error \<Rightarrow>
                [ConsoleError error, Emit (reply_id env) ERROR (EmitableError error),
                 ProgressClose, Suspended]
            | Inr v \<Rightarrow> [])"
  using assms
  by (simp add: decrypt_main_def decrypt_catch_def decrypt_run_simps split: sum.splits)

lemma decrypt_main_cancelled:
  assumes "passphrase_get env = Inl error"
  shows "decrypt_main env p =
           ([PassphraseGet, Suspended, Emit (reply_id env) ERROR (EmitableError error)], Inr ())"
  using assms by (simp add: decrypt_main_def run_defs)

lemma decrypt_main_no_lookup:
  "count_where is_legacy_find (fst (decrypt_main env p)) = 0
   \<and> count_where is_primary_find (fst (decrypt_main env p)) = 0"
proof (cases "passphrase_get env")
  case (Inl error)
  then show ?thesis
    by (simp add: decrypt_main_cancelled count_where_simps)
next
  case (Inr passphrase)
  obtain evs r where body: "fst (decrypt_try env p passphrase) = evs"
    "snd (decrypt_try env p passphrase) = r"
    by blast
  from decrypt_try_shape [OF body]
  have "count_where is_legacy_find evs = 0" "count_where is_primary_find evs = 0"
    by blast+
  with body show ?thesis
    by (simp add: decrypt_main_calls [OF Inr] count_where_simps split: sum.splits)
qed

lemma decrypt_calls:
  "fst (decrypt env resourceId) =
     FindByResourceId resourceId #
     schedule (primary_settles env)
       (if isl (find_by_resource_id env resourceId) then [LegacyFindOne resourceId] else [])
       (fst (decrypt_main env (getSecret env resourceId)))"
  by (simp add: decrypt_def Let_def getSecret_calls)

text \<open>
  The dialog in general. In every \<^verbatim>\<open>decrypt\<close> in which the passphrase prompt succeeds,
  \<^verbatim>\<open>progressController.open\<close> is called exactly once and \<^verbatim>\<open>progressController.close\<close> after
  it, once or twice; it is called once whenever \<^verbatim>\<open>close\<close> does not fail, and on every path
  on which no \<^verbatim>\<open>SUCCESS\<close> was emitted.
\<close>

lemma decrypt_progress_scope:
  assumes "passphrase_get env = Inr passphrase"
  shows "count_where is_progress_open (fst (decrypt env resourceId)) = 1
       \<and> 1 \<le> count_where is_progress_close (fst (decrypt env resourceId))
       \<and> count_where is_progress_close (fst (decrypt env resourceId)) \<le> 2
       \<and> (progress_close env = Inr () \<or>
            count_where is_success_reply (fst (decrypt env resourceId)) = 0 \<longrightarrow>
            count_where is_progress_close (fst (decrypt env resourceId)) = 1)
       \<and> only_after is_progress_close is_progress_open (fst (decrypt env resourceId))"
proof -
  let ?later = "if isl (find_by_resource_id env resourceId) then [LegacyFindOne resourceId] else []"
  let ?main = "fst (decrypt_main env (getSecret env resourceId))"
  obtain evs r where body: "fst (decrypt_try env (getSecret env resourceId) passphrase) = evs"
    "snd (decrypt_try env (getSecret env resourceId) passphrase) = r"
    by blast
  from decrypt_try_shape [OF body] obtain rest where
    shape: "count_where is_progress_open evs = 1"
      "evs = ProgressOpen ''Decrypting...'' 2 ''Decrypting private key'' # rest"
      "count_where is_success_reply evs \<le> 1"
      "count_where is_progress_close evs = count_where is_success_reply evs"
      "r = Inr () \<longrightarrow> count_where is_success_reply evs = 1"
      "\<forall>e. r = Inl e \<and> count_where is_success_reply evs = 1 \<longrightarrow> progress_close env = Inl e"
    by blast
  have quiet: "\<forall>ev \<in> set ?later. \<not> is_progress_close ev \<and> \<not> is_progress_open ev"
    by simp
  have counts: "count_where is_progress_open (fst (decrypt env resourceId)) =
      count_where is_progress_open ?main"
    "count_where is_progress_close (fst (decrypt env resourceId)) =
      count_where is_progress_close ?main"
    "count_where is_success_reply (fst (decrypt env resourceId)) =
      count_where is_success_reply ?main"
    by (simp_all add: decrypt_calls count_where_schedule count_where_simps)
  have order: "only_after is_progress_close is_progress_open (fst (decrypt env resourceId)) =
      only_after is_progress_close is_progress_open ?main"
    using only_after_schedule [OF quiet, of "primary_settles env" ?main]
    by (simp add: decrypt_calls)
  show ?thesis
  proof (cases r)
    case (Inl e)
    with shape body show ?thesis
      unfolding counts order
      by (auto simp: decrypt_main_calls [OF assms] count_where_simps)
  next
    case (Inr u)
    with shape body show ?thesis
      unfolding counts order
      by (auto simp: decrypt_main_calls [OF assms] count_where_simps)
  qed
qed

text \<open>
  The legacy lookup can be the last call of all: here the dialog cannot be opened, the
  \<^verbatim>\<open>catch\<close> closes it and \<^verbatim>\<open>decrypt\<close> returns before the primary lookup has failed.
\<close>

lemma decrypt_fallback_after_close:
  "decrypt sample_open_fails ''res-123'' =
     ([FindByResourceId ''res-123'', PassphraseGet,
       ProgressOpen ''Decrypting...'' 2 ''Decrypting private key'',
       ConsoleError network_error, Emit ''req-2'' ERROR (EmitableError network_error),
       ProgressClose, LegacyFindOne ''res-123''], Inr ())"
  by (simp add: decrypt_def decrypt_main_def decrypt_try_def decrypt_catch_def getSecret_def
      decrypt_run_simps sample_defs prod_eq_iff Let_def)

text \<open>
  Claim C3: every \<^verbatim>\<open>decrypt\<close> closes its progress dialog exactly once, on the success path
  and on every failure path, after it has opened it. The source writes \<^verbatim>\<open>close\<close> at the
  end of the \<^verbatim>\<open>try\<close> (line 53) and again in the \<^verbatim>\<open>catch\<close> (line 57) instead of once in a
  \<^verbatim>\<open>finally\<close>, and misses a path: when every step succeeds and the \<^verbatim>\<open>close\<close> of line 53
  rejects, the \<^verbatim>\<open>catch\<close> runs after the \<^verbatim>\<open>SUCCESS\<close> reply, emits an \<^verbatim>\<open>ERROR\<close> for the same
  request and calls \<^verbatim>\<open>close\<close> a second time. This is the run of the source at such an
  input: the dialog is opened once and closed twice.
\<close>

theorem decrypt_close_rejected_closes_twice:
  "passphrase_get sample_close_fails = Inr ''correct''
   \<and> decrypt sample_close_fails ''res-123'' =
       ([FindByResourceId ''res-123'', PassphraseGet,
         ProgressOpen ''Decrypting...'' 2 ''Decrypting private key'',
         GetAndDecryptPrivateKey ''correct'', ProgressUpdate 1 ''Decrypting secret'',
         DecryptWithKey ''CIPHER'' ''KEY'', ProgressUpdate 2 ''Complete'',
         Emit ''req-2'' SUCCESS (Message ''plain:CIPHER''), ProgressClose,
         ConsoleError network_error, Emit ''req-2'' ERROR (EmitableError network_error),
         ProgressClose], Inl network_error)
   \<and> count_where is_progress_open (fst (decrypt sample_close_fails ''res-123'')) = 1
   \<and> count_where is_progress_close (fst (decrypt sample_close_fails ''res-123'')) = 2"
  by (simp add: decrypt_def decrypt_main_def decrypt_try_def decrypt_catch_def getSecret_def
      secret_data_def decrypt_run_simps count_where_simps sample_defs prod_eq_iff Let_def)

text \<open>
  Claim C4. In every \<^verbatim>\<open>decrypt\<close>, \<^verbatim>\<open>LegacyResourceService.findOne\<close> is called if and only if
  \<^verbatim>\<open>Secret.findByResourceId\<close> has failed: once when it failed, never when it succeeded,
  for the same resource identifier and after the primary lookup, which is made exactly
  once. When the primary lookup succeeds its secret is the one used; when it fails and the
  legacy lookup returns a resource with secrets, the first of them is.
\<close>

theorem decrypt_legacy_lookup_iff_primary_fails:
  "count_where is_legacy_find (fst (decrypt env resourceId)) =
      (if isl (find_by_resource_id env resourceId) then 1 else 0)
   \<and> (\<forall>rid. LegacyFindOne rid \<in> set (fst (decrypt env resourceId)) \<longrightarrow> rid = resourceId)
   \<and> count_where is_primary_find (fst (decrypt env resourceId)) = 1
   \<and> only_after is_legacy_find is_primary_find (fst (decrypt env resourceId))
   \<and> (\<forall>s. find_by_resource_id env resourceId = Inr s \<longrightarrow>
          getSecret env resourceId = ([FindByResourceId resourceId], Inr (Some s)))
   \<and> (\<forall>error r s ss. find_by_resource_id env resourceId = Inl error \<and>
          legacy_find_one env resourceId = Inr r \<and> secrets r = Some (s # ss) \<longrightarrow>
          getSecret env resourceId =
            ([FindByResourceId resourceId, LegacyFindOne resourceId], Inr (Some s)))"
proof -
  let ?later = "if isl (find_by_resource_id env resourceId) then [LegacyFindOne resourceId] else []"
  let ?main = "fst (decrypt_main env (getSecret env resourceId))"
  have main: "count_where is_legacy_find ?main = 0" "count_where is_primary_find ?main = 0"
    using decrypt_main_no_lookup by blast+
  have not_main: "\<And>rid. LegacyFindOne rid \<in> set ?main \<Longrightarrow> False"
    using main(1) by (auto simp: count_where_def filter_empty_conv)
  have legacy: "count_where is_legacy_find (fst (decrypt env resourceId)) =
      (if isl (find_by_resource_id env resourceId) then 1 else 0)"
    using main by (simp add: decrypt_calls count_where_schedule count_where_simps)
  have same: "\<forall>rid. LegacyFindOne rid \<in> set (fst (decrypt env resourceId)) \<longrightarrow> rid = resourceId"
  proof (intro allI impI)
    fix rid
    assume "LegacyFindOne rid \<in> set (fst (decrypt env resourceId))"
    then have "LegacyFindOne rid \<in> set (schedule (primary_settles env) ?later ?main)"
      by (simp add: decrypt_calls)
    with set_schedule [of "primary_settles env" ?later ?main]
    have "LegacyFindOne rid \<in> set ?later \<union> set ?main"
      by blast
    with not_main show "rid = resourceId"
      by (auto split: if_splits)
  qed
  have primary: "count_where is_primary_find (fst (decrypt env resourceId)) = 1"
    using main by (simp add: decrypt_calls count_where_schedule count_where_simps)
  have order: "only_after is_legacy_find is_primary_find (fst (decrypt env resourceId))"
    by (simp add: decrypt_calls)
  have found: "\<forall>s. find_by_resource_id env resourceId = Inr s \<longrightarrow>
          getSecret env resourceId = ([FindByResourceId resourceId], Inr (Some s))"
    by (simp add: getSecret_def run_defs)
  have fallback: "\<forall>error r s ss. find_by_resource_id env resourceId = Inl error \<and>
          legacy_find_one env resourceId = Inr r \<and> secrets r = Some (s # ss) \<longrightarrow>
          getSecret env resourceId =
            ([FindByResourceId resourceId, LegacyFindOne resourceId], Inr (Some s))"
    by (simp add: getSecret_def first_secret_def run_defs)
  from legacy same primary order found fallback show ?thesis by blast
qed

theorem decrypt_legacy_lookup_iff_primary_fails_witness:
  "count_where is_legacy_find (fst (decrypt sample_decrypt ''res-123'')) = 0
   \<and> getSecret sample_decrypt ''res-123'' =
       ([FindByResourceId ''res-123''], Inr (Some \<lparr>data = ''CIPHER''\<rparr>))
   \<and> count_where is_legacy_find (fst (decrypt sample_old_server ''res-123'')) = 1
   \<and> getSecret sample_old_server ''res-123'' =
       ([FindByResourceId ''res-123'', LegacyFindOne ''res-123''],
        Inr (Some \<lparr>data = ''OLD-CIPHER''\<rparr>))"
proof -
  have new: "find_by_resource_id sample_decrypt ''res-123'' = Inr \<lparr>data = ''CIPHER''\<rparr>"
    by (simp add: sample_defs)
  have old: "find_by_resource_id sample_old_server ''res-123'' = Inl network_error"
    "legacy_find_one sample_old_server ''res-123'' = Inr \<lparr>secrets = Some [\<lparr>data = ''OLD-CIPHER''\<rparr>]\<rparr>"
    "secrets \<lparr>secrets = Some [\<lparr>data = ''OLD-CIPHER''\<rparr>]\<rparr> = Some [\<lparr>data = ''OLD-CIPHER''\<rparr>]"
    by (simp_all add: sample_defs)
  from decrypt_legacy_lookup_iff_primary_fails [of sample_decrypt "''res-123''"] new
  have a: "count_where is_legacy_find (fst (decrypt sample_decrypt ''res-123'')) = 0
     \<and> getSecret sample_decrypt ''res-123'' =
       ([FindByResourceId ''res-123''], Inr (Some \<lparr>data = ''CIPHER''\<rparr>))"
    by simp
  from decrypt_legacy_lookup_iff_primary_fails [of sample_old_server "''res-123''"] old
  have b: "count_where is_legacy_find (fst (decrypt sample_old_server ''res-123'')) = 1
     \<and> getSecret sample_old_server ''res-123'' =
       ([FindByResourceId ''res-123'', LegacyFindOne ''res-123''],
        Inr (Some \<lparr>data = ''OLD-CIPHER''\<rparr>))"
    by simp
  from a b show ?thesis by blast
qed

text \<open>
  Claim C5. In every \<^verbatim>\<open>decrypt\<close> in which the passphrase prompt fails, \<^verbatim>\<open>decrypt\<close> itself
  does one thing after the prompt: it emits one \<^verbatim>\<open>ERROR\<close> reply carrying the error of the
  prompt, and returns. It does so at once and without waiting for the fetch it has
  started: it never gets to \<^verbatim>\<open>await secretPromise\<close>, and when the primary lookup is still
  pending as the prompt fails, the \<^verbatim>\<open>ERROR\<close> is emitted before the fetch makes its next
  call (only a lookup that had failed during the prompt has its legacy call before the
  reply). However the fetch ends, its own failure included, nothing about it is reported:
  exactly one \<^verbatim>\<open>ERROR\<close> and no \<^verbatim>\<open>SUCCESS\<close> is emitted, the promise of \<^verbatim>\<open>decrypt\<close> resolves,
  and the progress dialog is neither opened nor closed.
\<close>

theorem decrypt_prompt_cancelled:
  assumes "passphrase_get env = Inl error"
  shows "(\<forall>secretPromise. decrypt_main env secretPromise =
            ([PassphraseGet, Suspended, Emit (reply_id env) ERROR (EmitableError error)], Inr ()))
       \<and> fst (decrypt env resourceId) =
           (if primary_settles env = 0
            then FindByResourceId resourceId # PassphraseGet #
                   (if isl (find_by_resource_id env resourceId)
                    then [LegacyFindOne resourceId] else []) @
                   [Emit (reply_id env) ERROR (EmitableError error)]
            else FindByResourceId resourceId # PassphraseGet #
                   Emit (reply_id env) ERROR (EmitableError error) #
                   (if isl (find_by_resource_id env resourceId)
                    then [LegacyFindOne resourceId] else []))
       \<and> snd (decrypt env resourceId) = Inr ()
       \<and> count_where is_error_reply (fst (decrypt env resourceId)) = 1
       \<and> count_where is_success_reply (fst (decrypt env resourceId)) = 0
       \<and> count_where is_progress_open (fst (decrypt env resourceId)) = 0
       \<and> count_where is_progress_close (fst (decrypt env resourceId)) = 0"
proof -
  have main: "\<forall>secretPromise. decrypt_main env secretPromise =
            ([PassphraseGet, Suspended, Emit (reply_id env) ERROR (EmitableError error)], Inr ())"
    using assms by (simp add: decrypt_main_cancelled)
  have run: "fst (decrypt env resourceId) =
           (if primary_settles env = 0
            then FindByResourceId resourceId # PassphraseGet #
                   (if isl (find_by_resource_id env resourceId)
                    then [LegacyFindOne resourceId] else []) @
                   [Emit (reply_id env) ERROR (EmitableError error)]
            else FindByResourceId resourceId # PassphraseGet #
                   Emit (reply_id env) ERROR (EmitableError error) #
                   (if isl (find_by_resource_id env resourceId)
                    then [LegacyFindOne resourceId] else []))"
    by (simp add: decrypt_calls main split: nat.splits)
  have resolves: "snd (decrypt env resourceId) = Inr ()"
    by (simp add: decrypt_def Let_def main)
  have counts: "count_where is_error_reply (fst (decrypt env resourceId)) = 1"
    "count_where is_success_reply (fst (decrypt env resourceId)) = 0"
    "count_where is_progress_open (fst (decrypt env resourceId)) = 0"
    "count_where is_progress_close (fst (decrypt env resourceId)) = 0"
    by (simp_all add: run count_where_simps)
  from main run resolves counts show ?thesis by blast
qed

theorem decrypt_prompt_cancelled_witness:
  "snd (getSecret sample_cancelled ''res-123'') = Inl network_error
   \<and> decrypt sample_cancelled ''res-123'' =
       ([FindByResourceId ''res-123'', PassphraseGet,
         Emit ''req-2'' ERROR (EmitableError cancel_error), LegacyFindOne ''res-123''], Inr ())
   \<and> decrypt sample_cancelled_after_fallback ''res-123'' =
       ([FindByResourceId ''res-123'', PassphraseGet, LegacyFindOne ''res-123'',
         Emit ''req-2'' ERROR (EmitableError cancel_error)], Inr ())
   \<and> count_where is_error_reply (fst (decrypt sample_cancelled ''res-123'')) = 1
   \<and> count_where is_progress_open (fst (decrypt sample_cancelled ''res-123'')) = 0"
proof -
  have cancelled: "passphrase_get sample_cancelled = Inl cancel_error"
    and cancelled': "passphrase_get sample_cancelled_after_fallback = Inl cancel_error"
    by (simp_all add: sample_defs)
  have fetch: "snd (getSecret sample_cancelled ''res-123'') = Inl network_error"
    by (simp add: getSecret_def run_simps sample_defs)
  have sample: "primary_settles sample_cancelled = 1" "reply_id sample_cancelled = ''req-2''"
    "isl (find_by_resource_id sample_cancelled ''res-123'')"
    "primary_settles sample_cancelled_after_fallback = 0"
    "reply_id sample_cancelled_after_fallback = ''req-2''"
    "isl (find_by_resource_id sample_cancelled_after_fallback ''res-123'')"
    by (simp_all add: sample_defs)
  from decrypt_prompt_cancelled [OF cancelled, of "''res-123''"]
  have a: "decrypt sample_cancelled ''res-123'' =
       ([FindByResourceId ''res-123'', PassphraseGet,
         Emit ''req-2'' ERROR (EmitableError cancel_error), LegacyFindOne ''res-123''], Inr ())
     \<and> count_where is_error_reply (fst (decrypt sample_cancelled ''res-123'')) = 1
     \<and> count_where is_progress_open (fst (decrypt sample_cancelled ''res-123'')) = 0"
    by (simp add: sample prod_eq_iff count_where_simps)
  from decrypt_prompt_cancelled [OF cancelled', of "''res-123''"]
  have b: "decrypt sample_cancelled_after_fallback ''res-123'' =
       ([FindByResourceId ''res-123'', PassphraseGet, LegacyFindOne ''res-123'',
         Emit ''req-2'' ERROR (EmitableError cancel_error)], Inr ())"
    by (simp add: sample prod_eq_iff)
  from fetch a b show ?thesis by blast
qed

end
